theory Spec2Isabelle
  imports Main "HOL-Library.Word" "HOL-Library.AList"
begin

section \<open>JSON values as the chat server uses them\<close>

text \<open>
  The server (\<^verbatim>\<open>src/main.cc\<close>) keeps every message as a \<^verbatim>\<open>nlohmann::json\<close> value.
  A value is null, a boolean, an integer, a string, an array or an object. An object is a
  \<^verbatim>\<open>std::map\<close> from keys to values; it is modelled as an association list that is only ever
  read through lookups (\<open>map_of\<close>) and written through \<open>AList.update\<close>, so the order of
  the pairs carries no meaning. Integers are the 64-bit values the library stores; floating-point
  numbers are outside this model.
\<close>

datatype json =
    JNull
  | JBool bool
  | JInt int
  | JStr string
  | JArr "json list"
  | JObj "(string \<times> json) list"

text \<open>The two library exceptions the program can meet; both derive from \<^verbatim>\<open>std::exception\<close>.\<close>

datatype jerror = ParseError | TypeError

text \<open>\<^verbatim>\<open>j.contains(key)\<close>: false on everything that is not an object.\<close>

fun contains :: "json \<Rightarrow> string \<Rightarrow> bool" where
  "contains (JObj kvs) k = (map_of kvs k \<noteq> None)"
| "contains _ k = False"

text \<open>
  \<^verbatim>\<open>j.value(key, default)\<close> with a string default: the default when the key is absent, the
  string stored under the key when there is one, \<^verbatim>\<open>type_error\<close> when the stored value is not
  a string or \<^verbatim>\<open>j\<close> is not an object.
\<close>

fun value_str :: "json \<Rightarrow> string \<Rightarrow> string \<Rightarrow> jerror + string" where
  "value_str (JObj kvs) k d =
     (case map_of kvs k of
        None \<Rightarrow> Inr d
      | Some (JStr s) \<Rightarrow> Inr s
      | Some _ \<Rightarrow> Inl TypeError)"
| "value_str _ k d = Inl TypeError"

text \<open>
  \<^verbatim>\<open>j[key] = v\<close> on a mutable value: null turns into an object, an object is updated,
  anything else raises \<^verbatim>\<open>type_error\<close>.
\<close>

fun set_key :: "json \<Rightarrow> string \<Rightarrow> json \<Rightarrow> jerror + json" where
  "set_key JNull k v = Inr (JObj [(k, v)])"
| "set_key (JObj kvs) k v = Inr (JObj (AList.update k v kvs))"
| "set_key _ k v = Inl TypeError"

text \<open>
  Reading \<^verbatim>\<open>j[key]\<close>. On a mutable object a missing key is created holding null; on a
  non-object the access raises.
\<close>

fun get_key :: "json \<Rightarrow> string \<Rightarrow> jerror + json" where
  "get_key (JObj kvs) k = (case map_of kvs k of None \<Rightarrow> Inr JNull | Some v \<Rightarrow> Inr v)"
| "get_key JNull k = Inr JNull"
| "get_key _ k = Inl TypeError"

text \<open>
  \<^verbatim>\<open>j.get<long long>()\<close>: defined on numbers only. The stored integer may be an unsigned
  64-bit value, and the conversion to \<^verbatim>\<open>long long\<close> wraps it. (The program is built for
  Windows, where \<^verbatim>\<open>long long\<close> is the library's own integer type and a boolean is refused.)
\<close>

fun get_long_long :: "json \<Rightarrow> jerror + int" where
  "get_long_long (JInt n) = Inr (sint (word_of_int n :: 64 word))"
| "get_long_long _ = Inl TypeError"

text \<open>The implicit conversion \<^verbatim>\<open>std::string s = j\<close>.\<close>

fun get_string :: "json \<Rightarrow> jerror + string" where
  "get_string (JStr s) = Inr s"
| "get_string _ = Inl TypeError"

text \<open>\<^verbatim>\<open>std::to_string\<close> on a \<^verbatim>\<open>long long\<close>: decimal digits, with a minus sign.\<close>

definition digit_char :: "nat \<Rightarrow> char" where
  "digit_char n = ''0123456789'' ! n"

function digits :: "nat \<Rightarrow> string" where
  "digits n = (if n < 10 then [digit_char n] else digits (n div 10) @ [digit_char (n mod 10)])"
  by pat_completeness auto
termination
  by (relation "measure id") auto

definition to_string :: "int \<Rightarrow> string" where
  "to_string i = (if i < 0 then CHR ''-'' # digits (nat (- i)) else digits (nat i))"

text \<open>Sequencing of steps that may raise.\<close>

definition ebind :: "jerror + 'a \<Rightarrow> ('a \<Rightarrow> jerror + 'b) \<Rightarrow> jerror + 'b" where
  "ebind r f = (case r of Inl e \<Rightarrow> Inl e | Inr x \<Rightarrow> f x)"

section \<open>Constants\<close>

definition MAX_HISTORY :: nat where
  "MAX_HISTORY = 10000"

text \<open>
  The program's string literals that are not ASCII, as the UTF-8 bytes of the source file:
  the "already online" error, the default nickname, the content of a logout record, the two
  presence words of the chat log, the bot's avatar, the tail of the welcome message and the
  bot's system instruction.
\<close>

definition already_online :: string where
  "already_online =
     [CHR 0xE7, CHR 0x94, CHR 0xA8, CHR 0xE6, CHR 0x88, CHR 0xB7, CHR 0xE5, CHR 0xB7,
     CHR 0xB2, CHR 0xE5, CHR 0x9C, CHR 0xA8, CHR 0xE7, CHR 0xBA, CHR 0xBF]"

definition unknown_user :: string where
  "unknown_user =
     [CHR 0xE6, CHR 0x9C, CHR 0xAA, CHR 0xE7, CHR 0x9F, CHR 0xA5, CHR 0xE7, CHR 0x94,
     CHR 0xA8, CHR 0xE6, CHR 0x88, CHR 0xB7]"

definition connection_closed :: string where
  "connection_closed =
     [CHR 0xE8, CHR 0xBF, CHR 0x9E, CHR 0xE6, CHR 0x8E, CHR 0xA5, CHR 0xE5, CHR 0xB7,
     CHR 0xB2, CHR 0xE5, CHR 0x85, CHR 0xB3, CHR 0xE9, CHR 0x97, CHR 0xAD]"

definition online_text :: string where
  "online_text =
     [CHR 0xE4, CHR 0xB8, CHR 0x8A, CHR 0xE7, CHR 0xBA, CHR 0xBF]"

definition offline_text :: string where
  "offline_text =
     [CHR 0xE4, CHR 0xB8, CHR 0x8B, CHR 0xE7, CHR 0xBA, CHR 0xBF]"

definition robot_avatar :: string where
  "robot_avatar =
     [CHR 0xF0, CHR 0x9F, CHR 0xA4, CHR 0x96]"

definition welcome_tail :: string where
  "welcome_tail =
     '' '' @ [CHR 0xE4, CHR 0xBD, CHR 0xA0, CHR 0xE5, CHR 0xA5, CHR 0xBD] @ ''! '' @
     [CHR 0xE6, CHR 0xAC, CHR 0xA2, CHR 0xE8, CHR 0xBF, CHR 0x8E, CHR 0xE6, CHR 0x9D,
     CHR 0xA5, CHR 0xE5, CHR 0x88, CHR 0xB0, CHR 0xE8, CHR 0x81, CHR 0x8A, CHR 0xE5,
     CHR 0xA4, CHR 0xA9, CHR 0xE5, CHR 0xAE, CHR 0xA4] @ ''! '' @ [CHR 0xE6, CHR 0x88,
     CHR 0x91, CHR 0xE6, CHR 0x98, CHR 0xAF, CHR 0xE8, CHR 0x81, CHR 0x8A, CHR 0xE5,
     CHR 0xA4, CHR 0xA9, CHR 0xE5, CHR 0xAE, CHR 0xA4, CHR 0xE7, CHR 0x9A, CHR 0x84] @
     '' AI '' @ [CHR 0xE5, CHR 0x8A, CHR 0xA9, CHR 0xE6, CHR 0x89, CHR 0x8B] @ '' ChatBot''
     @ [CHR 0xE3, CHR 0x80, CHR 0x82, CHR 0xE4, CHR 0xBD, CHR 0xBF, CHR 0xE7, CHR 0x94,
     CHR 0xA8] @ '' @ChatBot '' @ [CHR 0xE5, CHR 0x8F, CHR 0xAC, CHR 0xE5, CHR 0x94,
     CHR 0xA4, CHR 0xE6, CHR 0x88, CHR 0x91, CHR 0xEF, CHR 0xBC, CHR 0x8C, CHR 0xE5,
     CHR 0xB0, CHR 0xB1, CHR 0xE8, CHR 0x83, CHR 0xBD, CHR 0xE4, CHR 0xB8, CHR 0x8E,
     CHR 0xE6, CHR 0x88, CHR 0x91, CHR 0xE8, CHR 0xBF, CHR 0x9B, CHR 0xE8, CHR 0xA1,
     CHR 0x8C, CHR 0xE5, CHR 0xAF, CHR 0xB9, CHR 0xE8, CHR 0xAF, CHR 0x9D, CHR 0xE4,
     CHR 0xBA, CHR 0xA4, CHR 0xE6, CHR 0xB5, CHR 0x81]"

definition systemPrompt :: string where
  "systemPrompt =
     [CHR 0xE4, CHR 0xBD, CHR 0xA0, CHR 0xE6, CHR 0x98, CHR 0xAF, CHR 0xE4, CHR 0xB8,
     CHR 0x80, CHR 0xE4, CHR 0xB8, CHR 0xAA, CHR 0xE5, CHR 0xA4, CHR 0x9A, CHR 0xE4,
     CHR 0xBA, CHR 0xBA, CHR 0xE8, CHR 0x81, CHR 0x8A, CHR 0xE5, CHR 0xA4, CHR 0xA9,
     CHR 0xE5, CHR 0xAE, CHR 0xA4, CHR 0xE4, CHR 0xB8, CHR 0xAD, CHR 0xE4, CHR 0xB9,
     CHR 0x90, CHR 0xE4, CHR 0xBA, CHR 0x8E, CHR 0xE5, CHR 0x8A, CHR 0xA9, CHR 0xE4,
     CHR 0xBA, CHR 0xBA, CHR 0xE7, CHR 0x9A, CHR 0x84, CHR 0xE8, CHR 0x81, CHR 0x8A,
     CHR 0xE5, CHR 0xA4, CHR 0xA9, CHR 0xE6, CHR 0x9C, CHR 0xBA, CHR 0xE5, CHR 0x99,
     CHR 0xA8, CHR 0xE4, CHR 0xBA, CHR 0xBA, CHR 0xE3, CHR 0x80, CHR 0x82, CHR 0xE7,
     CHR 0x94, CHR 0xA8, CHR 0xE6, CHR 0x88, CHR 0xB7, CHR 0xE7, CHR 0x9A, CHR 0x84,
     CHR 0xE6, CHR 0xB6, CHR 0x88, CHR 0xE6, CHR 0x81, CHR 0xAF, CHR 0xE6, CHR 0xA0,
     CHR 0xBC, CHR 0xE5, CHR 0xBC, CHR 0x8F, CHR 0xE4, CHR 0xB8, CHR 0xBA] @ '': ['' @
     [CHR 0xE6, CHR 0x98, CHR 0xB5, CHR 0xE7, CHR 0xA7, CHR 0xB0] @ ''] (ID: <id>): <'' @
     [CHR 0xE6, CHR 0xB6, CHR 0x88, CHR 0xE6, CHR 0x81, CHR 0xAF, CHR 0xE5, CHR 0x86,
     CHR 0x85, CHR 0xE5, CHR 0xAE, CHR 0xB9] @ ''>'' @ [CHR 0xE3, CHR 0x80, CHR 0x82,
     CHR 0xE5, CHR 0xBD, CHR 0x93, CHR 0xE4, CHR 0xBD, CHR 0xA0, CHR 0xE5, CHR 0x9B,
     CHR 0x9E, CHR 0xE5, CHR 0xA4, CHR 0x8D, CHR 0xE6, CHR 0x97, CHR 0xB6, CHR 0xEF,
     CHR 0xBC, CHR 0x8C, CHR 0xE5, CHR 0x8F, CHR 0xAA, CHR 0xE5, CHR 0x8F, CHR 0x91,
     CHR 0xE9, CHR 0x80, CHR 0x81, CHR 0xE4, CHR 0xBD, CHR 0xA0, CHR 0xE7, CHR 0x9A,
     CHR 0x84, CHR 0xE6, CHR 0xB6, CHR 0x88, CHR 0xE6, CHR 0x81, CHR 0xAF, CHR 0xE5,
     CHR 0x86, CHR 0x85, CHR 0xE5, CHR 0xAE, CHR 0xB9, CHR 0xEF, CHR 0xBC, CHR 0x8C,
     CHR 0xE4, CHR 0xB8, CHR 0x8D, CHR 0xE8, CHR 0xA6, CHR 0x81, CHR 0xE5, CHR 0x8C,
     CHR 0x85, CHR 0xE5, CHR 0x90, CHR 0xAB, CHR 0xE4, CHR 0xBD, CHR 0xA0, CHR 0xE8,
     CHR 0x87, CHR 0xAA, CHR 0xE5, CHR 0xB7, CHR 0xB1, CHR 0xE7, CHR 0x9A, CHR 0x84,
     CHR 0xE6, CHR 0x98, CHR 0xB5, CHR 0xE7, CHR 0xA7, CHR 0xB0] @ ''/ID'' @ [CHR 0xE5,
     CHR 0x89, CHR 0x8D, CHR 0xE7, CHR 0xBC, CHR 0x80, CHR 0xE3, CHR 0x80, CHR 0x82,
     CHR 0xE4, CHR 0xBD, CHR 0xA0, CHR 0xE8, CHR 0xA6, CHR 0x81, CHR 0xE4, CHR 0xB9,
     CHR 0x90, CHR 0xE4, CHR 0xBA, CHR 0x8E, CHR 0xE5, CHR 0x8A, CHR 0xA9, CHR 0xE4,
     CHR 0xBA, CHR 0xBA, CHR 0xE3, CHR 0x80, CHR 0x81, CHR 0xE5, CHR 0x8F, CHR 0x8B,
     CHR 0xE5, CHR 0xA5, CHR 0xBD, CHR 0xE4, CHR 0xB8, CHR 0x94, CHR 0xE7, CHR 0xAE,
     CHR 0x80, CHR 0xE6, CHR 0xB4, CHR 0x81, CHR 0xE3, CHR 0x80, CHR 0x82, CHR 0xE5,
     CHR 0x9B, CHR 0x9E, CHR 0xE5, CHR 0xA4, CHR 0x8D, CHR 0xE7, CHR 0x94, CHR 0xA8,
     CHR 0xE6, CHR 0x88, CHR 0xB7, CHR 0xE6, CHR 0xB6, CHR 0x88, CHR 0xE6, CHR 0x81,
     CHR 0xAF, CHR 0xE6, CHR 0x97, CHR 0xB6, CHR 0xEF, CHR 0xBC, CHR 0x8C, CHR 0xE5,
     CHR 0x8F, CHR 0xAA, CHR 0xE9, CHR 0x92, CHR 0x88, CHR 0xE5, CHR 0xAF, CHR 0xB9,
     CHR 0xE6, CHR 0x9C, CHR 0x80, CHR 0xE5, CHR 0x90, CHR 0x8E, CHR 0xE4, CHR 0xB8,
     CHR 0x80, CHR 0xE6, CHR 0x9D, CHR 0xA1, CHR 0xE7, CHR 0x94, CHR 0xA8, CHR 0xE6,
     CHR 0x88, CHR 0xB7, CHR 0xE6, CHR 0xB6, CHR 0x88, CHR 0xE6, CHR 0x81, CHR 0xAF,
     CHR 0xE8, CHR 0xBF, CHR 0x9B, CHR 0xE8, CHR 0xA1, CHR 0x8C, CHR 0xE5, CHR 0x9B,
     CHR 0x9E, CHR 0xE5, CHR 0xA4, CHR 0x8D, CHR 0xE3, CHR 0x80, CHR 0x82, CHR 0xE8,
     CHR 0xAF, CHR 0xB7, CHR 0xE8, CHR 0xAE, CHR 0xB0, CHR 0xE4, CHR 0xBD, CHR 0x8F,
     CHR 0xE5, CHR 0x9C, CHR 0xA8, CHR 0xE6, CHR 0xB6, CHR 0x88, CHR 0xE6, CHR 0x81,
     CHR 0xAF, CHR 0xE5, CHR 0x86, CHR 0x85, CHR 0xE5, CHR 0xAE, CHR 0xB9, CHR 0xE7,
     CHR 0x9A, CHR 0x84, CHR 0xE7, CHR 0xAC, CHR 0xAC, CHR 0xE4, CHR 0xB8, CHR 0x80,
     CHR 0xE8, CHR 0xA1, CHR 0x8C, CHR 0xE4, CHR 0xBD, CHR 0xBF, CHR 0xE7, CHR 0x94,
     CHR 0xA8] @ '' @'' @ [CHR 0xE6, CHR 0x98, CHR 0xB5, CHR 0xE7, CHR 0xA7, CHR 0xB0] @
     '' '' @ [CHR 0xE6, CHR 0x9D, CHR 0xA5, CHR 0xE7, CHR 0xA7, CHR 0xB0, CHR 0xE5,
     CHR 0x91, CHR 0xBC, CHR 0xE7, CHR 0x94, CHR 0xA8, CHR 0xE6, CHR 0x88, CHR 0xB7,
     CHR 0xEF, CHR 0xBC, CHR 0x8C, CHR 0xE7, CHR 0x84, CHR 0xB6, CHR 0xE5, CHR 0x90,
     CHR 0x8E, CHR 0xE5, CHR 0x9C, CHR 0xA8, CHR 0xE7, CHR 0xAC, CHR 0xAC, CHR 0xE4,
     CHR 0xBA, CHR 0x8C, CHR 0xE8, CHR 0xA1, CHR 0x8C, CHR 0xE5, CHR 0xBC, CHR 0x80,
     CHR 0xE5, CHR 0xA7, CHR 0x8B, CHR 0xE7, CHR 0xBC, CHR 0x96, CHR 0xE5, CHR 0x86,
     CHR 0x99, CHR 0xE6, CHR 0xB6, CHR 0x88, CHR 0xE6, CHR 0x81, CHR 0xAF, CHR 0xE5,
     CHR 0x86, CHR 0x85, CHR 0xE5, CHR 0xAE, CHR 0xB9, CHR 0xE3, CHR 0x80, CHR 0x82]"

section \<open>UserRepository\<close>

record User =
  user_id :: string
  user_nickname :: string
  user_avatar :: string

text \<open>
  \<^verbatim>\<open>users_\<close> is an \<^verbatim>\<open>unordered_map<string, User>\<close>. It is modelled by its entries, an
  association list: \<^verbatim>\<open>find\<close> is \<open>map_of\<close>, \<^verbatim>\<open>users_[id] = u\<close> is \<open>AList.update\<close>
  (replace the entry of the key, or add one), \<^verbatim>\<open>erase(id)\<close> is \<open>AList.delete\<close>.
  The mutex makes each call atomic; calls are modelled one after the other.
\<close>

type_synonym user_table = "(string \<times> User) list"

definition addUser :: "string \<Rightarrow> string \<Rightarrow> string \<Rightarrow> user_table \<Rightarrow> (bool \<times> string) \<times> user_table" where
  "addUser uid nick avt us =
     (if map_of us uid \<noteq> None then ((False, already_online), us)
      else ((True, ''''),
            AList.update uid \<lparr>user_id = uid, user_nickname = nick, user_avatar = avt\<rparr> us))"

definition removeUser :: "string \<Rightarrow> user_table \<Rightarrow> user_table" where
  "removeUser uid us = AList.delete uid us"

definition userExists :: "string \<Rightarrow> user_table \<Rightarrow> bool" where
  "userExists uid us = (map_of us uid \<noteq> None)"

text \<open>A sequence of calls on the repository, started empty as the constructor leaves it.\<close>

datatype user_call = AddUser string string string | RemoveUser string

fun user_step :: "user_table \<Rightarrow> user_call \<Rightarrow> user_table" where
  "user_step us (AddUser uid nick avt) = snd (addUser uid nick avt us)"
| "user_step us (RemoveUser uid) = removeUser uid us"

definition run_users :: "user_call list \<Rightarrow> user_table" where
  "run_users calls = foldl user_step [] calls"

text \<open>The number of entries stored for one id.\<close>

definition entries_of :: "string \<Rightarrow> user_table \<Rightarrow> nat" where
  "entries_of uid us = length (filter (\<lambda>e. fst e = uid) us)"

section \<open>MessageRepository\<close>

text \<open>
  \<^verbatim>\<open>saveMessage(json& msg, defaultType)\<close> first completes the message inside a
  \<^verbatim>\<open>try\<close> block: \<^verbatim>\<open>time\<close> from the clock, \<^verbatim>\<open>type\<close> from \<^verbatim>\<open>defaultType\<close>,
  \<^verbatim>\<open>id\<close> from the decimal text of \<^verbatim>\<open>msg["time"].get<long long>()\<close>, each only when the
  key is missing. \<open>now\<close> is the value \<^verbatim>\<open>nowMs()\<close> returns, a \<^verbatim>\<open>long long\<close>.
\<close>

definition fill_message :: "64 word \<Rightarrow> string \<Rightarrow> json \<Rightarrow> jerror + json" where
  "fill_message now defaultType msg =
     ebind (if \<not> contains msg ''time'' then set_key msg ''time'' (JInt (sint now)) else Inr msg)
       (\<lambda>m1.
     ebind (if \<not> contains m1 ''type'' then set_key m1 ''type'' (JStr defaultType) else Inr m1)
       (\<lambda>m2.
     if \<not> contains m2 ''id'' then
       ebind (get_key m2 ''time'') (\<lambda>t.
       ebind (get_long_long t) (\<lambda>n.
       set_key m2 ''id'' (JStr (''msg_'' @ to_string n))))
     else Inr m2))"

text \<open>
  Under the lock: \<^verbatim>\<open>push_back\<close>, then one \<^verbatim>\<open>pop_front\<close> when the size exceeds
  \<^verbatim>\<open>MAX_HISTORY\<close>.
\<close>

definition push_message :: "json \<Rightarrow> json list \<Rightarrow> json list" where
  "push_message m buf =
     (let b = buf @ [m] in if length b > MAX_HISTORY then tl b else b)"

text \<open>
  The result is the completed message, or \<open>None\<close> (\<^verbatim>\<open>std::nullopt\<close>) when the
  completion raised; the exception is caught inside and the buffer is then untouched. The
  message is passed by reference: after a success the caller's variable holds the returned
  record; after a failure no caller reads it again.
\<close>

definition saveMessage :: "64 word \<Rightarrow> json \<Rightarrow> string \<Rightarrow> json list \<Rightarrow> json option \<times> json list" where
  "saveMessage now msg defaultType buf =
     (case fill_message now defaultType msg of
        Inl e \<Rightarrow> (None, buf)
      | Inr m \<Rightarrow> (Some m, push_message m buf))"

text \<open>\<^verbatim>\<open>getHistory\<close> copies the buffer, front to back, into a JSON array.\<close>

definition getHistory :: "json list \<Rightarrow> json" where
  "getHistory buf = JArr (foldl (\<lambda>arr m. arr @ [m]) [] buf)"

text \<open>
  A well-formed input message: an object whose \<^verbatim>\<open>time\<close>, when it has one, is an integer
  in the range of \<^verbatim>\<open>long long\<close> (milliseconds since the epoch).
\<close>

definition wf_message :: "json \<Rightarrow> bool" where
  "wf_message msg =
     (case msg of
        JObj kvs \<Rightarrow>
          (case map_of kvs ''time'' of
             None \<Rightarrow> True
           | Some (JInt t) \<Rightarrow> - (2 ^ 63) \<le> t \<and> t < 2 ^ 63
           | Some _ \<Rightarrow> False)
      | _ \<Rightarrow> False)"



section \<open>The server state\<close>

text \<open>
  The three global objects (\<^verbatim>\<open>globalUserRepo\<close>, \<^verbatim>\<open>globalMessageRepo\<close>,
  \<^verbatim>\<open>globalBroadcaster\<close>), the per-connection \<^verbatim>\<open>UserContext\<close> objects and what the
  program hands to the outside are collected in one record. Every handler is modelled as
  one step on it: the handlers of one connection run one after the other, and the repositories
  are only touched under their mutexes. Interleavings of handlers of different connections at a
  finer grain are not modelled.
\<close>

type_synonym conn = nat

record UserContext =
  userId :: string
  nickname :: string
  avatar :: string
  loggedIn :: bool

text \<open>
  What a connection is asked to send: the literal text of the keep-alive answer, or the
  \<^verbatim>\<open>dump()\<close> of a JSON value, which is represented by the value it serialises.
\<close>

datatype frame = RawText string | Dump json

text \<open>
  The log lines, by the statement that writes them. \<open>ChatLog\<close> carries the result of
  \<^verbatim>\<open>formatChatLog\<close>; the text of \<^verbatim>\<open>e.what()\<close> is reduced to the kind of the exception.
\<close>

datatype log_entry =
    SaveFailed
  | HandleFailed jerror
  | LoginOk string string
  | ChatLog string
  | BotTriggered
  | WsConnected
  | WsDisconnected string string
  | HistoryFileMissing
  | HistoryLoaded nat
  | HistoryLoadFailed jerror
  | HistorySaved
  | HistorySaveFailed jerror

text \<open>
  \<open>users\<close>, \<open>messages\<close> and \<open>conns\<close> are the members \<^verbatim>\<open>users_\<close>, \<^verbatim>\<open>messages_\<close>
  and \<^verbatim>\<open>conns_\<close>; \<open>db_file\<close> is the content of \<^verbatim>\<open>message.json\<close> (\<open>None\<close> when the file
  does not exist); \<open>connected\<close> is what \<^verbatim>\<open>c->connected()\<close> answers; \<open>ctx\<close> is the
  context object attached to a connection (\<open>None\<close>: a null pointer); \<open>sent\<close> lists per
  connection the frames passed to \<^verbatim>\<open>send\<close>; \<open>broadcasts\<close> lists the arguments of the
  calls of \<^verbatim>\<open>Broadcaster::broadcast\<close>; \<open>requests\<close> lists the bodies of the HTTP requests
  issued to the completion service; \<open>logged\<close> is the log.
\<close>

record world =
  users :: user_table
  messages :: "json list"
  db_file :: "string option"
  conns :: "conn set"
  connected :: "conn \<Rightarrow> bool"
  ctx :: "conn \<Rightarrow> UserContext option"
  sent :: "conn \<Rightarrow> frame list"
  broadcasts :: "frame list"
  requests :: "json list"
  logged :: "log_entry list"

definition formatChatLog :: "string \<Rightarrow> string \<Rightarrow> string \<Rightarrow> string" where
  "formatChatLog nick uid content = nick @ ''@'' @ uid @ '': '' @ content"

definition write_log :: "log_entry \<Rightarrow> world \<Rightarrow> world" where
  "write_log e s = s\<lparr>logged := logged s @ [e]\<rparr>"

subsection \<open>Broadcaster and connections\<close>

definition send :: "conn \<Rightarrow> frame \<Rightarrow> world \<Rightarrow> world" where
  "send ws f s = s\<lparr>sent := (sent s)(ws := sent s ws @ [f])\<rparr>"

text \<open>
  \<^verbatim>\<open>ws->forceClose()\<close> closes the connection: from then on it no longer reports itself
  connected. The transport reports the loss later, as a disconnect of its own.
\<close>

definition forceClose :: "conn \<Rightarrow> world \<Rightarrow> world" where
  "forceClose ws s = s\<lparr>connected := (connected s)(ws := False)\<rparr>"

definition addConnection :: "conn \<Rightarrow> world \<Rightarrow> world" where
  "addConnection c s = s\<lparr>conns := insert c (conns s)\<rparr>"

definition removeConnection :: "conn \<Rightarrow> world \<Rightarrow> world" where
  "removeConnection c s = s\<lparr>conns := conns s - {c}\<rparr>"

text \<open>
  \<^verbatim>\<open>broadcast\<close> sends the text to every member of \<^verbatim>\<open>conns_\<close> that reports itself
  connected. Each connection receives one frame, so the order in which the hash set is walked
  does not show.
\<close>

definition broadcast :: "frame \<Rightarrow> world \<Rightarrow> world" where
  "broadcast f s =
     s\<lparr>sent := (\<lambda>c. if c \<in> conns s \<and> connected s c then sent s c @ [f] else sent s c),
       broadcasts := broadcasts s @ [f]\<rparr>"

subsection \<open>saveMessage and the persistence file on the global repository\<close>

definition repo_saveMessage :: "64 word \<Rightarrow> json \<Rightarrow> string \<Rightarrow> world \<Rightarrow> json option \<times> world" where
  "repo_saveMessage now msg defaultType s =
     (case saveMessage now msg defaultType (messages s) of
        (None, buf) \<Rightarrow> (None, write_log SaveFailed s)
      | (Some m, buf) \<Rightarrow> (Some m, s\<lparr>messages := buf\<rparr>))"



subsection \<open>ChatBot\<close>

definition broadcastBotMessage :: "64 word \<Rightarrow> string \<Rightarrow> world \<Rightarrow> world" where
  "broadcastBotMessage now content s =
     (let j = JObj [(''type'', JStr ''msg''), (''userId'', JStr ''bot_001''),
                    (''nickname'', JStr ''ChatBot''), (''avatar'', JStr robot_avatar),
                    (''content'', JStr content)]
      in case repo_saveMessage now j ''msg'' s of
           (None, s1) \<Rightarrow> s1
         | (Some m, s1) \<Rightarrow> broadcast (Dump m) s1)"

text \<open>
  The body of the loop of \<^verbatim>\<open>ChatBot::process\<close> for one history record: \<open>Inr None\<close> is
  \<^verbatim>\<open>continue\<close>, \<open>Inl\<close> is the exception of a conversion to \<^verbatim>\<open>std::string\<close>.
\<close>

definition attributed_entry :: "json \<Rightarrow> jerror + json option" where
  "attributed_entry item =
     (if \<not> contains item ''userId'' \<or> \<not> contains item ''nickname'' \<or> \<not> contains item ''content''
      then Inr None
      else
        ebind (ebind (get_key item ''userId'') get_string) (\<lambda>uid.
        ebind (ebind (get_key item ''nickname'') get_string) (\<lambda>nick.
        ebind (ebind (get_key item ''content'') get_string) (\<lambda>content.
        Inr (Some (JObj [(''role'', JStr ''user''),
                         (''content'', JStr (''['' @ nick @ ''] (ID: '' @ uid @ ''): '' @ content))]))))))"

fun conversation_loop :: "json list \<Rightarrow> json list \<Rightarrow> jerror + json list" where
  "conversation_loop [] msgs = Inr msgs"
| "conversation_loop (item # items) msgs =
     (case attributed_entry item of
        Inl e \<Rightarrow> Inl e
      | Inr None \<Rightarrow> conversation_loop items msgs
      | Inr (Some entry) \<Rightarrow> conversation_loop items (msgs @ [entry]))"

definition build_messages :: "json \<Rightarrow> jerror + json list" where
  "build_messages historyCtx =
     (let msgs = [JObj [(''role'', JStr ''system''), (''content'', JStr systemPrompt)]]
      in case historyCtx of
           JArr items \<Rightarrow> conversation_loop items msgs
         | _ \<Rightarrow> Inr msgs)"

text \<open>
  \<^verbatim>\<open>process\<close> has no handler of its own: an exception of the loop leaves through the caller,
  before any request is made. Of the request only the body is kept. The answer of the service
  arrives in a later callback, which is not modelled.
\<close>

definition process :: "string \<Rightarrow> json \<Rightarrow> world \<Rightarrow> jerror + world" where
  "process query historyCtx s =
     ebind (build_messages historyCtx) (\<lambda>msgs.
       Inr (s\<lparr>requests := requests s @
                [JObj [(''model'', JStr ''qwen-flash''), (''messages'', JArr msgs)]]\<rparr>))"

subsection \<open>The WebSocket controller\<close>

text \<open>
  A text frame enters \<^verbatim>\<open>handleNewMessage\<close> as a string. The handler compares it with
  \<^verbatim>\<open>"ping"\<close> and otherwise gives it to \<^verbatim>\<open>json::parse\<close>; the frame is represented by the
  outcome of these two steps.
\<close>

datatype inbound = PingText | Unparseable | Parsed json

datatype WebSocketMessageType = Text | Binary | Ping | Pong | Close | Unknown

text \<open>
  How a piece of the handler ends: normally, by an exception that the handler's
  \<^verbatim>\<open>catch\<close> will log (with the state reached when it was raised), or by dereferencing a
  null context pointer.
\<close>

datatype fault = NullContext

datatype outcome = Done world | Raised jerror world | Crash fault

text \<open>\<^verbatim>\<open>j.empty()\<close>.\<close>

fun jempty :: "json \<Rightarrow> bool" where
  "jempty JNull = True"
| "jempty (JArr xs) = (xs = [])"
| "jempty (JObj kvs) = (kvs = [])"
| "jempty _ = False"

text \<open>\<^verbatim>\<open>content.find(pat) != std::string::npos\<close>.\<close>

fun has_prefix :: "string \<Rightarrow> string \<Rightarrow> bool" where
  "has_prefix [] s = True"
| "has_prefix (p # ps) [] = False"
| "has_prefix (p # ps) (c # cs) = (p = c \<and> has_prefix ps cs)"

fun str_find :: "string \<Rightarrow> string \<Rightarrow> bool" where
  "str_find pat [] = (pat = [])"
| "str_find pat (c # cs) = (has_prefix pat (c # cs) \<or> str_find pat cs)"

text \<open>
  \<^verbatim>\<open>processLogout(ctx)\<close>; \<open>uc\<close> is the object behind the pointer and \<open>ws\<close> the connection
  it belongs to. Both callers have read \<^verbatim>\<open>ctx->loggedIn\<close> before the call.
\<close>

definition processLogout :: "64 word \<Rightarrow> conn \<Rightarrow> UserContext \<Rightarrow> world \<Rightarrow> world" where
  "processLogout now ws uc s =
     (if \<not> loggedIn uc then s
      else
        (let s1 = s\<lparr>users := removeUser (userId uc) (users s)\<rparr>;
             s2 = s1\<lparr>ctx := (ctx s1)(ws \<mapsto> uc\<lparr>loggedIn := False\<rparr>)\<rparr>;
             s3 = write_log (ChatLog (formatChatLog (nickname uc) (userId uc) offline_text)) s2;
             j = JObj [(''type'', JStr ''logout''), (''userId'', JStr (userId uc)),
                       (''nickname'', JStr (nickname uc)), (''avatar'', JStr (avatar uc)),
                       (''content'', JStr connection_closed)]
         in case repo_saveMessage now j ''logout'' s3 of
              (None, s4) \<Rightarrow> s4
            | (Some m, s4) \<Rightarrow> broadcast (Dump m) s4))"

text \<open>
  The login branch. \<open>now1\<close> and \<open>now2\<close> are the clock readings of the two calls of
  saveMessage it can make (the login record, the bot's welcome).
\<close>

definition login_branch :: "64 word \<Rightarrow> 64 word \<Rightarrow> conn \<Rightarrow> json \<Rightarrow> world \<Rightarrow> outcome" where
  "login_branch now1 now2 ws j s =
     (case value_str j ''userId'' [] of
        Inl e \<Rightarrow> Raised e s
      | Inr uid \<Rightarrow>
          if uid = [] then Done s
          else
     (case value_str j ''nickname'' unknown_user of
        Inl e \<Rightarrow> Raised e s
      | Inr nick \<Rightarrow>
     (case value_str j ''avatar'' [] of
        Inl e \<Rightarrow> Raised e s
      | Inr avt \<Rightarrow>
     (case addUser uid nick avt (users s) of
        ((success, errMsg), us) \<Rightarrow>
          (let s1 = s\<lparr>users := us\<rparr> in
           if \<not> success then
             (case set_key j ''state'' (JBool False) of
                Inl e \<Rightarrow> Raised e s1
              | Inr j1 \<Rightarrow> Done (send ws (Dump j1) s1))
           else
             (case ctx s1 ws of
                None \<Rightarrow> Crash NullContext
              | Some uc \<Rightarrow>
                  (let c = uc\<lparr>userId := uid, nickname := nick, avatar := avt, loggedIn := True\<rparr>;
                       s2 = s1\<lparr>ctx := (ctx s1)(ws \<mapsto> c)\<rparr>;
                       s3 = write_log (ChatLog (formatChatLog (nickname c) (userId c) online_text))
                              (write_log (LoginOk (nickname c) (userId c)) s2);
                       hist = getHistory (messages s3);
                       s4 = (if \<not> jempty hist
                             then send ws (Dump (JObj [(''type'', JStr ''history''),
                                                       (''content'', hist)])) s3
                             else s3)
                   in case set_key j ''state'' (JBool True) of
                        Inl e \<Rightarrow> Raised e s4
                      | Inr j1 \<Rightarrow>
                          (case repo_saveMessage now1 j1 ''login'' s4 of
                             (None, s5) \<Rightarrow> Done s5
                           | (Some m, s5) \<Rightarrow>
                               Done (broadcastBotMessage now2 (''@'' @ nickname c @ welcome_tail)
                                       (broadcast (Dump m) s5))))))))))"

text \<open>
  The message branch. After a successful saveMessage the caller's \<^verbatim>\<open>j\<close> is the saved
  record (it was passed by reference), and the log line reads its \<^verbatim>\<open>content\<close> before the
  broadcast. The log level is \<^verbatim>\<open>kInfo\<close> (set in \<^verbatim>\<open>main\<close>), so the operands of
  \<^verbatim>\<open>LOG_INFO\<close> are evaluated.
\<close>

definition msg_branch :: "64 word \<Rightarrow> conn \<Rightarrow> json \<Rightarrow> world \<Rightarrow> outcome" where
  "msg_branch now ws j s =
     (case ctx s ws of
        None \<Rightarrow> Crash NullContext
      | Some uc \<Rightarrow>
          if \<not> loggedIn uc then Done s
          else
            (case ebind (set_key j ''userId'' (JStr (userId uc))) (\<lambda>j1.
                  ebind (set_key j1 ''nickname'' (JStr (nickname uc))) (\<lambda>j2.
                  set_key j2 ''avatar'' (JStr (avatar uc)))) of
               Inl e \<Rightarrow> Raised e s
             | Inr j3 \<Rightarrow>
                 (case repo_saveMessage now j3 ''msg'' s of
                    (None, s1) \<Rightarrow> Done s1
                  | (Some m, s1) \<Rightarrow>
                      (case value_str m ''content'' [] of
                         Inl e \<Rightarrow> Raised e s1
                       | Inr content \<Rightarrow>
                           (let s2 = write_log (ChatLog (formatChatLog (nickname uc) (userId uc)
                                                   content)) s1;
                                s3 = broadcast (Dump m) s2
                            in if str_find ''@ChatBot'' content then
                                 (let s4 = write_log BotTriggered s3;
                                      history = getHistory (messages s4)
                                  in case process content history s4 of
                                       Inl e \<Rightarrow> Raised e s4
                                     | Inr s5 \<Rightarrow> Done s5)
                               else Done s3)))))"

definition logout_branch :: "64 word \<Rightarrow> conn \<Rightarrow> world \<Rightarrow> outcome" where
  "logout_branch now ws s =
     (case ctx s ws of
        None \<Rightarrow> Crash NullContext
      | Some uc \<Rightarrow>
          if \<not> loggedIn uc then Done s
          else Done (forceClose ws (processLogout now ws uc s)))"

text \<open>The \<^verbatim>\<open>catch (const std::exception&)\<close> at the end of the handler.\<close>

fun catch_all :: "outcome \<Rightarrow> fault + world" where
  "catch_all (Done s) = Inr s"
| "catch_all (Raised e s) = Inr (write_log (HandleFailed e) s)"
| "catch_all (Crash f) = Inl f"

definition handleNewMessage ::
    "64 word \<Rightarrow> 64 word \<Rightarrow> conn \<Rightarrow> inbound \<Rightarrow> WebSocketMessageType \<Rightarrow> world \<Rightarrow> fault + world" where
  "handleNewMessage now1 now2 ws message mtype s =
     (if mtype \<noteq> Text then Inr s
      else
        (case message of
           PingText \<Rightarrow> Inr (send ws (RawText ''pong'') s)
         | Unparseable \<Rightarrow> catch_all (Raised ParseError s)
         | Parsed j \<Rightarrow>
             catch_all
               (case value_str j ''type'' [] of
                  Inl e \<Rightarrow> Raised e s
                | Inr t \<Rightarrow>
                    if t = ''login'' then login_branch now1 now2 ws j s
                    else if t = ''msg'' then msg_branch now1 ws j s
                    else if t = ''logout'' then logout_branch now1 ws s
                    else Done s)))"

definition handleNewConnection :: "conn \<Rightarrow> world \<Rightarrow> world" where
  "handleNewConnection ws s =
     write_log WsConnected
       (addConnection ws
         (s\<lparr>ctx := (ctx s)(ws \<mapsto> \<lparr>userId = [], nickname = [], avatar = [], loggedIn = False\<rparr>)\<rparr>))"

definition handleConnectionClosed :: "64 word \<Rightarrow> conn \<Rightarrow> world \<Rightarrow> world" where
  "handleConnectionClosed now ws s =
     (let s1 = removeConnection ws s
      in case ctx s1 ws of
           None \<Rightarrow> s1
         | Some uc \<Rightarrow>
             if loggedIn uc
             then processLogout now ws uc
                    (write_log (WsDisconnected (nickname uc) (userId uc)) s1)
             else s1)"

text \<open>
  The state when the server starts with no history file, and the two events of the transport:
  a connection is established and reported, a connection is lost and reported.
\<close>

definition initial_world :: world where
  "initial_world =
     \<lparr>users = [], messages = [], db_file = None, conns = {}, connected = (\<lambda>c. False),
      ctx = (\<lambda>c. None), sent = (\<lambda>c. []), broadcasts = [], requests = [], logged = []\<rparr>"

definition on_connect :: "conn \<Rightarrow> world \<Rightarrow> world" where
  "on_connect ws s = handleNewConnection ws (s\<lparr>connected := (connected s)(ws := True)\<rparr>)"

definition on_disconnect :: "64 word \<Rightarrow> conn \<Rightarrow> world \<Rightarrow> world" where
  "on_disconnect now ws s =
     handleConnectionClosed now ws (s\<lparr>connected := (connected s)(ws := False)\<rparr>)"

subsection \<open>Runs of the server\<close>

text \<open>
  The events the transport delivers: a new connection, a frame on a connection (with the clock
  readings its handler will take), the loss of a connection. A run stops at a crash.
\<close>

datatype event =
    Connect conn
  | Frame conn inbound WebSocketMessageType "64 word" "64 word"
  | Disconnect conn "64 word"

fun step :: "world \<Rightarrow> event \<Rightarrow> fault + world" where
  "step s (Connect c) = Inr (on_connect c s)"
| "step s (Frame c m t now1 now2) = handleNewMessage now1 now2 c m t s"
| "step s (Disconnect c now) = Inr (on_disconnect now c s)"

fun run :: "world \<Rightarrow> event list \<Rightarrow> fault + world" where
  "run s [] = Inr s"
| "run s (e # es) = (case step s e of Inl f \<Rightarrow> Inl f | Inr s1 \<Rightarrow> run s1 es)"


text \<open>The buffer of the global repository is within its capacity.\<close>

definition within_cap :: "world \<Rightarrow> bool" where
  "within_cap s \<longleftrightarrow> length (messages s) \<le> MAX_HISTORY"

section \<open>The bot's conversation as the specification words it\<close>

text \<open>
  The conversation of the specification: the system instruction, then one entry per history
  record that carries \<^verbatim>\<open>userId\<close>, \<^verbatim>\<open>nickname\<close> and \<^verbatim>\<open>content\<close>, each rewritten as the line
  \<^verbatim>\<open>[displayName] (<label>: userId): content\<close>. The label is a parameter: the specification
  writes \<^verbatim>\<open>id\<close>. \<open>field_text\<close> is the text of a field that holds a string.
\<close>

definition carries_identity_and_content :: "json \<Rightarrow> bool" where
  "carries_identity_and_content item =
     (contains item ''userId'' \<and> contains item ''nickname'' \<and> contains item ''content'')"

definition field_text :: "json \<Rightarrow> string \<Rightarrow> string" where
  "field_text item k = (case get_key item k of Inr (JStr t) \<Rightarrow> t | _ \<Rightarrow> [])"

definition holds_text :: "json \<Rightarrow> string \<Rightarrow> bool" where
  "holds_text item k = (case get_key item k of Inr (JStr t) \<Rightarrow> True | _ \<Rightarrow> False)"

definition attributed_line :: "string \<Rightarrow> json \<Rightarrow> string" where
  "attributed_line label item =
     ''['' @ field_text item ''nickname'' @ ''] ('' @ label @ '': '' @ field_text item ''userId''
       @ ''): '' @ field_text item ''content''"

definition spec_conversation :: "string \<Rightarrow> json list \<Rightarrow> json list" where
  "spec_conversation label items =
     JObj [(''role'', JStr ''system''), (''content'', JStr systemPrompt)]
     # map (\<lambda>item. JObj [(''role'', JStr ''user''),
                          (''content'', JStr (attributed_line label item))])
         (filter carries_identity_and_content items)"

section \<open>Properties of the UserRepository\<close>

lemma user_step_distinct:
  "distinct (map fst us) \<Longrightarrow> distinct (map fst (user_step us c))"
  by (cases c) (simp_all add: addUser_def removeUser_def distinct_update distinct_delete)

lemma foldl_user_step_distinct:
  "distinct (map fst us) \<Longrightarrow> distinct (map fst (foldl user_step us calls))"
  by (induction calls arbitrary: us) (simp_all add: user_step_distinct)

lemma distinct_entries_le_one:
  "distinct (map fst us) \<Longrightarrow> length (filter (\<lambda>e. fst e = uid) us) \<le> 1"
proof (induction us)
  case Nil
  then show ?case by simp
next
  case (Cons e us)
  show ?case
  proof (cases "fst e = uid")
    case True
    with Cons.prems have "uid \<notin> fst ` set us" by auto
    then have "filter (\<lambda>e. fst e = uid) us = []"
      by (auto simp: filter_empty_conv)
    with True show ?thesis by simp
  next
    case False
    with Cons show ?thesis by simp
  qed
qed

text \<open>
  C2. Whatever calls of addUser and removeUser have been made, the repository holds at most one
  entry per id (also after every prefix of the calls, each prefix being a sequence itself);
  addUser for an id that is present reports failure with the "already online" message and
  returns the table as it was; removeUser of an absent id returns the table as it was.
\<close>

theorem user_repository_unique:
  "entries_of uid (run_users calls) \<le> 1
   \<and> (\<forall>n. entries_of uid (run_users (take n calls)) \<le> 1)
   \<and> (userExists uid us \<longrightarrow> addUser uid nick avt us = ((False, already_online), us))
   \<and> (\<not> userExists uid us \<longrightarrow> removeUser uid us = us)"
proof -
  have d: "\<And>cs. distinct (map fst (run_users cs))"
    unfolding run_users_def by (rule foldl_user_step_distinct) simp
  have a: "entries_of uid (run_users calls) \<le> 1"
    unfolding entries_of_def by (rule distinct_entries_le_one [OF d])
  have b: "\<forall>n. entries_of uid (run_users (take n calls)) \<le> 1"
    unfolding entries_of_def by (intro allI distinct_entries_le_one [OF d])
  have c: "userExists uid us \<longrightarrow> addUser uid nick avt us = ((False, already_online), us)"
    by (simp add: userExists_def addUser_def)
  have e: "\<not> userExists uid us \<longrightarrow> removeUser uid us = us"
  proof
    assume "\<not> userExists uid us"
    then have "uid \<notin> fst ` set us"
      by (simp add: userExists_def map_of_eq_None_iff)
    then show "removeUser uid us = us"
      by (simp add: removeUser_def)
  qed
  from a b c e show ?thesis by blast
qed

theorem user_repository_unique_witness:
  "userExists ''u1'' (run_users [AddUser ''u1'' ''Alice'' ''a'']) \<and>
   addUser ''u1'' ''Bob'' ''b'' (run_users [AddUser ''u1'' ''Alice'' ''a''])
     = ((False, already_online), run_users [AddUser ''u1'' ''Alice'' ''a'']) \<and>
   \<not> userExists ''u2'' (run_users [AddUser ''u1'' ''Alice'' ''a'']) \<and>
   removeUser ''u2'' (run_users [AddUser ''u1'' ''Alice'' ''a''])
     = run_users [AddUser ''u1'' ''Alice'' ''a''] \<and>
   entries_of ''u1'' (run_users [AddUser ''u1'' ''Alice'' ''a'', AddUser ''u1'' ''Bob'' ''b'']) = 1"
proof -
  have ex: "userExists ''u1'' (run_users [AddUser ''u1'' ''Alice'' ''a''])"
    by (simp add: userExists_def run_users_def addUser_def)
  have nex: "\<not> userExists ''u2'' (run_users [AddUser ''u1'' ''Alice'' ''a''])"
    by (simp add: userExists_def run_users_def addUser_def)
  have cnt: "entries_of ''u1''
      (run_users [AddUser ''u1'' ''Alice'' ''a'', AddUser ''u1'' ''Bob'' ''b'']) = 1"
    by (simp add: entries_of_def run_users_def addUser_def)
  from ex nex cnt
    user_repository_unique [of "''u1''" "[]" "run_users [AddUser ''u1'' ''Alice'' ''a'']" "''Bob''" "''b''"]
    user_repository_unique [of "''u2''" "[]" "run_users [AddUser ''u1'' ''Alice'' ''a'']" "''x''" "''y''"]
  show ?thesis by blast
qed

section \<open>Properties of the MessageRepository\<close>



lemma MAX_HISTORY_pos: "0 < MAX_HISTORY"
  by (simp add: MAX_HISTORY_def)

lemma push_message_eq:
  "push_message m buf = (if MAX_HISTORY \<le> length buf then tl (buf @ [m]) else buf @ [m])"
  by (auto simp: push_message_def Let_def)

lemma push_message_last: "last (push_message m buf) = m"
  by (cases buf) (auto simp: push_message_def MAX_HISTORY_def Let_def last_tl)

lemma push_message_length:
  "length buf \<le> MAX_HISTORY \<Longrightarrow> length (push_message m buf) \<le> MAX_HISTORY"
  by (auto simp: push_message_eq)

lemma sint_in_range:
  "- (2 ^ 63) \<le> t \<Longrightarrow> t < 2 ^ 63 \<Longrightarrow> sint (word_of_int t :: 64 word) = t"
  by (simp add: signed_of_int signed_take_bit_int_eq_self)

subsection \<open>What saveMessage fills in\<close>

lemma fill_message_wf:
  assumes "wf_message msg"
  shows "\<exists>m. fill_message now dt msg = Inr m
     \<and> get_key m ''time'' =
         (if contains msg ''time'' then get_key msg ''time'' else Inr (JInt (sint now)))
     \<and> get_key m ''type'' =
         (if contains msg ''type'' then get_key msg ''type'' else Inr (JStr dt))
     \<and> (\<exists>t. get_key m ''time'' = Inr (JInt t) \<and>
            get_key m ''id'' =
              (if contains msg ''id'' then get_key msg ''id''
               else Inr (JStr (''msg_'' @ to_string t))))
     \<and> (\<forall>k. contains msg k \<longrightarrow> get_key m k = get_key msg k)
     \<and> (\<forall>k. contains m k \<longleftrightarrow> contains msg k \<or> k = ''time'' \<or> k = ''type'' \<or> k = ''id'')"
proof -
  from assms obtain kvs where msg: "msg = JObj kvs"
    by (cases msg) (simp_all add: wf_message_def)
  from assms msg have t: "map_of kvs ''time'' = None \<or>
      (\<exists>t. map_of kvs ''time'' = Some (JInt t) \<and> - (2 ^ 63) \<le> t \<and> t < 2 ^ 63)"
    by (auto simp: wf_message_def split: option.splits json.splits)
  show ?thesis
  proof (cases "map_of kvs ''time''")
    case None
    then show ?thesis
      unfolding msg fill_message_def ebind_def
      by (cases "map_of kvs ''type''"; cases "map_of kvs ''id''") (auto simp: update_conv')
  next
    case (Some v)
    with t obtain n where "map_of kvs ''time'' = Some (JInt n)" "- (2 ^ 63) \<le> n" "n < 2 ^ 63"
      by auto
    then show ?thesis
      unfolding msg fill_message_def ebind_def
      by (cases "map_of kvs ''type''"; cases "map_of kvs ''id''")
         (auto simp: update_conv' sint_in_range)
  qed
qed

text \<open>
  C7. For a well-formed input message saveMessage succeeds and returns a record \<open>m\<close> whose
  time is the caller's when supplied and the clock reading otherwise, whose type is the caller's
  when supplied and \<open>defaultType\<close> otherwise, whose id is the caller's when supplied and
  \<open>msg_\<close> followed by the decimal text of the record's time otherwise; every field the caller
  supplied reads as before, no field other than these three is added, and the returned record is
  the one at the back of the buffer.
\<close>

theorem saveMessage_fills_defaults:
  assumes "wf_message msg"
  shows "\<exists>m. saveMessage now msg dt buf = (Some m, push_message m buf)
     \<and> last (push_message m buf) = m
     \<and> get_key m ''time'' =
         (if contains msg ''time'' then get_key msg ''time'' else Inr (JInt (sint now)))
     \<and> get_key m ''type'' =
         (if contains msg ''type'' then get_key msg ''type'' else Inr (JStr dt))
     \<and> (\<exists>t. get_key m ''time'' = Inr (JInt t) \<and>
            get_key m ''id'' =
              (if contains msg ''id'' then get_key msg ''id''
               else Inr (JStr (''msg_'' @ to_string t))))
     \<and> (\<forall>k. contains msg k \<longrightarrow> get_key m k = get_key msg k)
     \<and> (\<forall>k. contains m k \<longleftrightarrow> contains msg k \<or> k = ''time'' \<or> k = ''type'' \<or> k = ''id'')"
proof -
  from fill_message_wf [OF assms, of now dt]
  obtain m where "fill_message now dt msg = Inr m" and rest:
    "get_key m ''time'' =
         (if contains msg ''time'' then get_key msg ''time'' else Inr (JInt (sint now)))
     \<and> get_key m ''type'' =
         (if contains msg ''type'' then get_key msg ''type'' else Inr (JStr dt))
     \<and> (\<exists>t. get_key m ''time'' = Inr (JInt t) \<and>
            get_key m ''id'' =
              (if contains msg ''id'' then get_key msg ''id''
               else Inr (JStr (''msg_'' @ to_string t))))
     \<and> (\<forall>k. contains msg k \<longrightarrow> get_key m k = get_key msg k)
     \<and> (\<forall>k. contains m k \<longleftrightarrow> contains msg k \<or> k = ''time'' \<or> k = ''type'' \<or> k = ''id'')"
    by blast
  then have "saveMessage now msg dt buf = (Some m, push_message m buf)"
    by (simp add: saveMessage_def)
  with rest push_message_last [of m buf] show ?thesis
    by blast
qed

theorem saveMessage_fills_defaults_witness:
  "wf_message (JObj [(''content'', JStr ''hi''), (''time'', JInt 1700000000000)]) \<and>
   (\<exists>m. saveMessage 5 (JObj [(''content'', JStr ''hi''), (''time'', JInt 1700000000000)])
           ''msg'' [] = (Some m, [m])
      \<and> get_key m ''time'' = Inr (JInt 1700000000000)
      \<and> get_key m ''type'' = Inr (JStr ''msg'')
      \<and> get_key m ''id'' = Inr (JStr ''msg_1700000000000'')
      \<and> get_key m ''content'' = Inr (JStr ''hi''))"
proof -
  let ?msg = "JObj [(''content'', JStr ''hi''), (''time'', JInt 1700000000000)]"
  have wf: "wf_message ?msg"
    by (simp add: wf_message_def)
  have ts: "to_string 1700000000000 = ''1700000000000''"
    by (simp add: to_string_def digit_char_def)
  have pm: "\<And>m. push_message m [] = [m]"
    by (simp add: push_message_def MAX_HISTORY_def)
  from saveMessage_fills_defaults [OF wf, of 5 "''msg''" "[]"] wf show ?thesis
    by (auto simp: pm ts)
qed

subsection \<open>The bound on the history\<close>

lemma push_message_drop:
  assumes "length buf \<le> MAX_HISTORY"
  shows "push_message m buf = drop (Suc (length buf) - MAX_HISTORY) (buf @ [m])"
proof (cases "MAX_HISTORY \<le> length buf")
  case True
  with assms have one: "Suc (length buf) - MAX_HISTORY = 1" by simp
  from True MAX_HISTORY_pos obtain x xs where buf: "buf = x # xs" by (cases buf) auto
  from True have "push_message m buf = tl (buf @ [m])" by (simp add: push_message_eq)
  also have "\<dots> = drop 1 (buf @ [m])" by (simp add: buf)
  finally show ?thesis by (simp only: one)
next
  case False
  then show ?thesis by (simp add: push_message_eq)
qed






section \<open>Persistence\<close>



section \<open>The conversation sent to the completion service\<close>

lemma attributed_entry_text:
  assumes "carries_identity_and_content item"
    and "holds_text item ''userId''" and "holds_text item ''nickname''"
    and "holds_text item ''content''"
  shows "attributed_entry item =
     Inr (Some (JObj [(''role'', JStr ''user''),
                      (''content'', JStr (attributed_line ''ID'' item))]))"
  using assms
  by (auto simp: attributed_entry_def carries_identity_and_content_def holds_text_def
      attributed_line_def field_text_def ebind_def split: sum.splits json.splits)

lemma attributed_entry_skip:
  "\<not> carries_identity_and_content item \<Longrightarrow> attributed_entry item = Inr None"
  by (auto simp: attributed_entry_def carries_identity_and_content_def)

lemma conversation_loop_text:
  assumes "\<forall>item\<in>set items. carries_identity_and_content item \<longrightarrow>
     holds_text item ''userId'' \<and> holds_text item ''nickname'' \<and> holds_text item ''content''"
  shows "conversation_loop items msgs =
     Inr (msgs @ map (\<lambda>item. JObj [(''role'', JStr ''user''),
                                     (''content'', JStr (attributed_line ''ID'' item))])
                   (filter carries_identity_and_content items))"
  using assms
proof (induction items arbitrary: msgs)
  case Nil
  then show ?case by simp
next
  case (Cons item items)
  show ?case
  proof (cases "carries_identity_and_content item")
    case True
    with Cons.prems have "attributed_entry item =
       Inr (Some (JObj [(''role'', JStr ''user''),
                        (''content'', JStr (attributed_line ''ID'' item))]))"
      by (simp add: attributed_entry_text)
    with True Cons show ?thesis by simp
  next
    case False
    with Cons show ?thesis by (simp add: attributed_entry_skip)
  qed
qed

text \<open>
  C9, as amended. Take a history in which every record that carries \<^verbatim>\<open>userId\<close>,
  \<^verbatim>\<open>nickname\<close> and \<^verbatim>\<open>content\<close> holds a string in each of the three. Then the conversation
  is the system instruction followed, in history order, by one entry per such record, records
  lacking one of the fields being skipped, each entry reading
  \<^verbatim>\<open>[displayName] (ID: userId): content\<close>; and \<^verbatim>\<open>process\<close> issues exactly one request,
  with this conversation. The label is \<^verbatim>\<open>ID\<close> in capitals, as the system instruction itself
  announces the format.
\<close>

theorem bot_conversation:
  assumes "\<forall>item\<in>set items. carries_identity_and_content item \<longrightarrow>
     holds_text item ''userId'' \<and> holds_text item ''nickname'' \<and> holds_text item ''content''"
  shows "build_messages (JArr items) = Inr (spec_conversation ''ID'' items)
     \<and> process query (JArr items) s =
         Inr (s\<lparr>requests := requests s @
                [JObj [(''model'', JStr ''qwen-flash''),
                       (''messages'', JArr (spec_conversation ''ID'' items))]]\<rparr>)"
  by (simp add: build_messages_def process_def ebind_def spec_conversation_def
      conversation_loop_text [OF assms])

text \<open>
  The claim as the specification states it fails twice. On a record with three strings the line
  is labelled \<^verbatim>\<open>ID\<close>, not \<^verbatim>\<open>id\<close>. On a record that carries the three fields with a
  \<^verbatim>\<open>content\<close> that is not a string the conversion raises, and no request is issued at all.
\<close>

theorem bot_conversation_counterexample:
  "build_messages (JArr [JObj [(''userId'', JStr ''u1''), (''nickname'', JStr ''Alice''),
                               (''content'', JStr ''hi'')]])
     \<noteq> Inr (spec_conversation ''id''
              [JObj [(''userId'', JStr ''u1''), (''nickname'', JStr ''Alice''),
                     (''content'', JStr ''hi'')]])
   \<and> build_messages (JArr [JObj [(''userId'', JStr ''u1''), (''nickname'', JStr ''Alice''),
                                 (''content'', JInt 5)]]) = Inl TypeError
   \<and> process ''@ChatBot'' (JArr [JObj [(''userId'', JStr ''u1''), (''nickname'', JStr ''Alice''),
                                 (''content'', JInt 5)]]) initial_world = Inl TypeError"
  by (simp add: build_messages_def process_def attributed_entry_def ebind_def
      spec_conversation_def carries_identity_and_content_def attributed_line_def field_text_def)

theorem bot_conversation_witness:
  "build_messages (JArr [JObj [(''userId'', JStr ''u1''), (''nickname'', JStr ''Alice''),
                               (''content'', JStr ''hi'')],
                         JObj [(''userId'', JStr ''u2''), (''content'', JStr ''no name'')],
                         JInt 3])
     = Inr [JObj [(''role'', JStr ''system''), (''content'', JStr systemPrompt)],
            JObj [(''role'', JStr ''user''), (''content'', JStr ''[Alice] (ID: u1): hi'')]]"
proof -
  let ?items = "[JObj [(''userId'', JStr ''u1''), (''nickname'', JStr ''Alice''),
                       (''content'', JStr ''hi'')],
                 JObj [(''userId'', JStr ''u2''), (''content'', JStr ''no name'')],
                 JInt 3]"
  have h: "\<forall>item\<in>set ?items. carries_identity_and_content item \<longrightarrow>
     holds_text item ''userId'' \<and> holds_text item ''nickname'' \<and> holds_text item ''content''"
    by (simp add: carries_identity_and_content_def holds_text_def)
  from bot_conversation [OF h] show ?thesis
    by (simp add: spec_conversation_def carries_identity_and_content_def attributed_line_def
        field_text_def)
qed

section \<open>Properties of the handlers\<close>

subsection \<open>What the helpers leave alone\<close>

lemma repo_saveMessage_cases:
  "repo_saveMessage now msg dt s =
     (case fill_message now dt msg of
        Inl e \<Rightarrow> (None, write_log SaveFailed s)
      | Inr m \<Rightarrow> (Some m, s\<lparr>messages := push_message m (messages s)\<rparr>))"
  by (simp add: repo_saveMessage_def saveMessage_def split: sum.splits)

lemma repo_saveMessage_keeps:
  "users (snd (repo_saveMessage now msg dt s)) = users s"
  "ctx (snd (repo_saveMessage now msg dt s)) = ctx s"
  "conns (snd (repo_saveMessage now msg dt s)) = conns s"
  "connected (snd (repo_saveMessage now msg dt s)) = connected s"
  "sent (snd (repo_saveMessage now msg dt s)) = sent s"
  "broadcasts (snd (repo_saveMessage now msg dt s)) = broadcasts s"
  "requests (snd (repo_saveMessage now msg dt s)) = requests s"
  by (simp_all add: repo_saveMessage_cases write_log_def split: sum.splits)

lemma broadcast_keeps:
  "users (broadcast f s) = users s"
  "ctx (broadcast f s) = ctx s"
  "messages (broadcast f s) = messages s"
  "conns (broadcast f s) = conns s"
  "connected (broadcast f s) = connected s"
  "requests (broadcast f s) = requests s"
  "logged (broadcast f s) = logged s"
  by (simp_all add: broadcast_def)

lemma send_keeps:
  "users (send ws f s) = users s"
  "ctx (send ws f s) = ctx s"
  "messages (send ws f s) = messages s"
  "conns (send ws f s) = conns s"
  "connected (send ws f s) = connected s"
  "broadcasts (send ws f s) = broadcasts s"
  "requests (send ws f s) = requests s"
  "logged (send ws f s) = logged s"
  by (simp_all add: send_def)

lemma write_log_keeps:
  "users (write_log e s) = users s"
  "ctx (write_log e s) = ctx s"
  "messages (write_log e s) = messages s"
  "conns (write_log e s) = conns s"
  "connected (write_log e s) = connected s"
  "sent (write_log e s) = sent s"
  "broadcasts (write_log e s) = broadcasts s"
  "requests (write_log e s) = requests s"
  by (simp_all add: write_log_def)

lemma broadcastBotMessage_keeps:
  "users (broadcastBotMessage now content s) = users s"
  "ctx (broadcastBotMessage now content s) = ctx s"
  "conns (broadcastBotMessage now content s) = conns s"
  "connected (broadcastBotMessage now content s) = connected s"
  "requests (broadcastBotMessage now content s) = requests s"
  by (simp_all add: broadcastBotMessage_def Let_def repo_saveMessage_cases write_log_def
      broadcast_def split: sum.splits)

lemma value_str_obj:
  "value_str j k d = Inr v \<Longrightarrow> \<exists>kvs. j = JObj kvs"
  by (cases j) simp_all

lemma processLogout_users:
  "users (processLogout now ws uc s) =
     (if loggedIn uc then removeUser (userId uc) (users s) else users s)"
  by (simp add: processLogout_def Let_def case_prod_beta repo_saveMessage_keeps broadcast_keeps
      write_log_keeps split: option.split)

lemma process_users: "process q h s = Inr s1 \<Longrightarrow> users s1 = users s"
  by (auto simp: process_def ebind_def split: sum.splits)

lemmas handler_defs =
  handleNewMessage_def login_branch_def msg_branch_def logout_branch_def processLogout_def
  handleNewConnection_def handleConnectionClosed_def on_connect_def on_disconnect_def
  initial_world_def addConnection_def removeConnection_def write_log_def send_def broadcast_def
  forceClose_def broadcastBotMessage_def repo_saveMessage_def saveMessage_def fill_message_def
  push_message_def getHistory_def addUser_def removeUser_def userExists_def ebind_def Let_def
  to_string_def digit_char_def MAX_HISTORY_def formatChatLog_def

lemma run_snoc:
  "run s (es @ [e]) = (case run s es of Inl f \<Rightarrow> Inl f | Inr s1 \<Rightarrow> step s1 e)"
  by (induction es arbitrary: s) (simp_all split: sum.splits)

text \<open>A first client connects and logs in as \<^verbatim>\<open>u1\<close>: the state used by the examples below.\<close>

lemma first_login_run:
  "\<exists>s1. run initial_world
      [Connect 0,
       Frame 0 (Parsed (JObj [(''type'', JStr ''login''), (''userId'', JStr ''u1''),
                              (''nickname'', JStr ''Alice'')])) Text 1 2] = Inr s1
     \<and> users s1 = [(''u1'', \<lparr>user_id = ''u1'', user_nickname = ''Alice'', user_avatar = []\<rparr>)]
     \<and> ctx s1 = (\<lambda>c. None)(0 \<mapsto> \<lparr>userId = ''u1'', nickname = ''Alice'', avatar = [], loggedIn = True\<rparr>)
     \<and> length (messages s1) = 2
     \<and> conns s1 = {0}"
  by (simp add: handler_defs)

subsection \<open>The registry never holds the empty id\<close>

lemma login_branch_no_empty_id:
  "\<not> userExists [] (users s) \<Longrightarrow> catch_all (login_branch now1 now2 ws j s) = Inr s1 \<Longrightarrow>
   \<not> userExists [] (users s1)"
  by (auto simp: login_branch_def addUser_def Let_def case_prod_beta write_log_keeps
      repo_saveMessage_keeps broadcast_keeps send_keeps broadcastBotMessage_keeps
      userExists_def update_conv'
      split: sum.splits if_splits option.splits)

lemma msg_branch_users:
  "catch_all (msg_branch now ws j s) = Inr s1 \<Longrightarrow> users s1 = users s"
  by (auto simp: msg_branch_def Let_def case_prod_beta write_log_keeps
      repo_saveMessage_keeps broadcast_keeps dest!: process_users
      split: sum.splits if_splits option.splits)

lemma logout_branch_no_empty_id:
  "\<not> userExists [] (users s) \<Longrightarrow> catch_all (logout_branch now ws s) = Inr s1 \<Longrightarrow>
   \<not> userExists [] (users s1)"
  by (auto simp: logout_branch_def forceClose_def processLogout_users userExists_def
      removeUser_def delete_conv' split: option.splits if_splits)

lemma step_no_empty_id:
  assumes inv: "\<not> userExists [] (users s)" and st: "step s e = Inr s1"
  shows "\<not> userExists [] (users s1)"
proof (cases e)
  case (Connect c)
  with inv st show ?thesis
    by (auto simp: on_connect_def handleNewConnection_def write_log_def addConnection_def)
next
  case (Frame c m t now1 now2)
  with st have h: "handleNewMessage now1 now2 c m t s = Inr s1" by simp
  show ?thesis
  proof (cases "t = Text")
    case False
    with h inv show ?thesis by (simp add: handleNewMessage_def)
  next
    case True
    show ?thesis
    proof (cases m)
      case PingText
      with h True inv show ?thesis by (auto simp: handleNewMessage_def send_keeps)
    next
      case Unparseable
      with h True inv show ?thesis by (auto simp: handleNewMessage_def write_log_keeps)
    next
      case (Parsed j)
      show ?thesis
      proof (cases "value_str j ''type'' []")
        case (Inl err)
        with h True Parsed inv show ?thesis
          by (auto simp: handleNewMessage_def write_log_keeps)
      next
        case (Inr ty)
        with h True Parsed inv login_branch_no_empty_id [of s now1 now2 c j s1]
          msg_branch_users [of now1 c j s s1] logout_branch_no_empty_id [of s now1 c s1]
        show ?thesis
          by (auto simp: handleNewMessage_def split: if_splits)
      qed
    qed
  qed
next
  case (Disconnect c now)
  with inv st show ?thesis
    by (auto simp: on_disconnect_def handleConnectionClosed_def Let_def removeConnection_def
        processLogout_users write_log_keeps userExists_def removeUser_def delete_conv'
        split: option.splits if_splits)
qed

lemma run_no_empty_id:
  "\<not> userExists [] (users s) \<Longrightarrow> run s es = Inr s1 \<Longrightarrow> \<not> userExists [] (users s1)"
proof (induction es arbitrary: s)
  case Nil
  then show ?case by simp
next
  case (Cons e es)
  from Cons.prems(2) obtain s2 where e: "step s e = Inr s2" and r: "run s2 es = Inr s1"
    by (auto split: sum.splits)
  from Cons.IH [OF step_no_empty_id [OF Cons.prems(1) e] r] show ?case .
qed

lemma reachable_no_empty_id:
  "run initial_world es = Inr s \<Longrightarrow> \<not> userExists [] (users s)"
  by (rule run_no_empty_id [of initial_world]) (simp_all add: initial_world_def userExists_def)

subsection \<open>The history stays within its capacity\<close>

text \<open>
  The server starts on an empty buffer when there is no history file, and no handler lets the
  buffer grow beyond \<^verbatim>\<open>MAX_HISTORY\<close>. (\<^verbatim>\<open>load()\<close> copies whatever array the file holds.)
\<close>

lemma within_cap_simps:
  "within_cap (write_log e s) = within_cap s"
  "within_cap (send ws f s) = within_cap s"
  "within_cap (broadcast f s) = within_cap s"
  "within_cap (forceClose ws s) = within_cap s"
  "within_cap (removeConnection ws s) = within_cap s"
  "within_cap (addConnection ws s) = within_cap s"
  by (simp_all add: within_cap_def write_log_def send_def broadcast_def forceClose_def
      removeConnection_def addConnection_def)

lemma repo_saveMessage_cap:
  "within_cap s \<Longrightarrow> within_cap (snd (repo_saveMessage now msg dt s))"
  by (auto simp: within_cap_def repo_saveMessage_cases write_log_def push_message_length
      split: sum.splits)

lemma broadcastBotMessage_cap:
  "within_cap s \<Longrightarrow> within_cap (broadcastBotMessage now content s)"
  using repo_saveMessage_cap [of s]
  by (simp add: broadcastBotMessage_def Let_def case_prod_beta within_cap_simps split: option.split)

lemma processLogout_cap:
  "within_cap s \<Longrightarrow> within_cap (processLogout now ws uc s)"
proof -
  assume a: "within_cap s"
  let ?s3 = "write_log (ChatLog (formatChatLog (nickname uc) (userId uc) offline_text))
      (s\<lparr>users := removeUser (userId uc) (users s),
         ctx := (ctx s)(ws \<mapsto> uc\<lparr>loggedIn := False\<rparr>)\<rparr>)"
  from a have "within_cap ?s3" by (simp add: within_cap_def write_log_def)
  from repo_saveMessage_cap [OF this] show ?thesis
    by (simp add: processLogout_def Let_def case_prod_beta within_cap_simps a split: option.split)
qed


lemma process_cap: "process q h s = Inr s1 \<Longrightarrow> within_cap s1 = within_cap s"
  by (auto simp: process_def ebind_def within_cap_def split: sum.splits)

lemma login_branch_cap:
  assumes "within_cap s" and "catch_all (login_branch now1 now2 ws j s) = Inr s1"
  shows "within_cap s1"
proof -
  have upd: "\<And>us c. within_cap (s\<lparr>users := us, ctx := c\<rparr>)" "\<And>us. within_cap (s\<lparr>users := us\<rparr>)"
    using assms(1) by (simp_all add: within_cap_def)
  show ?thesis
    using assms
    by (auto simp: login_branch_def addUser_def Let_def case_prod_beta within_cap_simps upd
        intro!: broadcastBotMessage_cap repo_saveMessage_cap
        split: sum.splits if_splits option.splits)
qed

lemma msg_branch_cap:
  assumes "within_cap s" and "catch_all (msg_branch now ws j s) = Inr s1"
  shows "within_cap s1"
  using assms repo_saveMessage_cap [OF assms(1)]
  by (auto simp: msg_branch_def Let_def case_prod_beta within_cap_simps
      dest!: process_cap split: sum.splits if_splits option.splits)

lemma logout_branch_cap:
  assumes "within_cap s" and "catch_all (logout_branch now ws s) = Inr s1"
  shows "within_cap s1"
  using assms
  by (auto simp: logout_branch_def within_cap_simps processLogout_cap
      split: option.splits if_splits)

lemma step_cap:
  assumes inv: "within_cap s" and st: "step s e = Inr s1"
  shows "within_cap s1"
proof (cases e)
  case (Connect c)
  with inv st show ?thesis
    by (auto simp: on_connect_def handleNewConnection_def within_cap_def write_log_def
        addConnection_def)
next
  case (Frame c m t now1 now2)
  with st have h: "handleNewMessage now1 now2 c m t s = Inr s1" by simp
  show ?thesis
  proof (cases "t = Text")
    case False
    with h inv show ?thesis by (simp add: handleNewMessage_def)
  next
    case True
    show ?thesis
    proof (cases m)
      case PingText
      with h True inv show ?thesis by (auto simp: handleNewMessage_def within_cap_simps)
    next
      case Unparseable
      with h True inv show ?thesis by (auto simp: handleNewMessage_def within_cap_simps)
    next
      case (Parsed j)
      show ?thesis
      proof (cases "value_str j ''type'' []")
        case (Inl err)
        with h True Parsed inv show ?thesis
          by (auto simp: handleNewMessage_def within_cap_simps)
      next
        case (Inr ty)
        with h True Parsed inv login_branch_cap [of s now1 now2 c j s1]
          msg_branch_cap [of s now1 c j s1] logout_branch_cap [of s now1 c s1]
        show ?thesis
          by (auto simp: handleNewMessage_def split: if_splits)
      qed
    qed
  qed
next
  case (Disconnect c now)
  have "\<And>f. within_cap (s\<lparr>connected := f\<rparr>)"
    using inv by (simp add: within_cap_def)
  with st Disconnect show ?thesis
    by (auto simp: on_disconnect_def handleConnectionClosed_def Let_def within_cap_simps
        intro!: processLogout_cap split: option.splits if_splits)
qed

lemma run_cap:
  "within_cap s \<Longrightarrow> run s es = Inr s1 \<Longrightarrow> within_cap s1"
proof (induction es arbitrary: s)
  case Nil
  then show ?case by simp
next
  case (Cons e es)
  from Cons.prems(2) obtain s2 where e: "step s e = Inr s2" and r: "run s2 es = Inr s1"
    by (auto split: sum.splits)
  from Cons.IH [OF step_cap [OF Cons.prems(1) e] r] show ?case .
qed

lemma reachable_within_cap:
  "run initial_world es = Inr s \<Longrightarrow> length (messages s) \<le> MAX_HISTORY"
  using run_cap [of initial_world es s]
  by (simp add: within_cap_def initial_world_def)

subsection \<open>Login frames without a usable id\<close>

text \<open>
  C10. A text frame of type \<^verbatim>\<open>login\<close> whose \<^verbatim>\<open>userId\<close> is absent or the empty string
  leaves the whole state as it was: nothing is sent to the connection, the registry, the history
  and the broadcasts are untouched, and the session's context is unchanged (an unauthenticated
  session stays so).
\<close>

theorem login_without_userId_no_effect:
  assumes "value_str j ''type'' [] = Inr ''login''"
    and "\<not> contains j ''userId'' \<or> get_key j ''userId'' = Inr (JStr [])"
  shows "handleNewMessage now1 now2 ws (Parsed j) Text s = Inr s"
proof -
  from assms(1) obtain kvs where j: "j = JObj kvs"
    by (blast dest: value_str_obj)
  from assms(2) have "value_str j ''userId'' [] = Inr []"
    unfolding j by (auto split: option.splits)
  with assms(1) show ?thesis
    by (simp add: handleNewMessage_def login_branch_def)
qed

theorem login_without_userId_no_effect_witness:
  "handleNewMessage 1 2 0 (Parsed (JObj [(''type'', JStr ''login''), (''nickname'', JStr ''Al'')]))
      Text (on_connect 0 initial_world) = Inr (on_connect 0 initial_world)
   \<and> handleNewMessage 1 2 0 (Parsed (JObj [(''type'', JStr ''login''), (''userId'', JStr [])]))
      Text (on_connect 0 initial_world) = Inr (on_connect 0 initial_world)"
proof -
  let ?a = "JObj [(''type'', JStr ''login''), (''nickname'', JStr ''Al'')]"
  let ?b = "JObj [(''type'', JStr ''login''), (''userId'', JStr [])]"
  have a1: "value_str ?a ''type'' [] = Inr ''login''" by simp
  have a2: "\<not> contains ?a ''userId'' \<or> get_key ?a ''userId'' = Inr (JStr [])" by simp
  have b1: "value_str ?b ''type'' [] = Inr ''login''" by simp
  have b2: "\<not> contains ?b ''userId'' \<or> get_key ?b ''userId'' = Inr (JStr [])" by simp
  from login_without_userId_no_effect [OF a1 a2] login_without_userId_no_effect [OF b1 b2]
  show ?thesis by simp
qed

subsection \<open>Login with an id that is already online\<close>



subsection \<open>Logging out twice\<close>










subsection \<open>Logging in again on a session that is logged in\<close>

lemma login_accepted:
  assumes "value_str j ''type'' [] = Inr ''login''"
    and "value_str j ''userId'' [] = Inr uid" and "uid \<noteq> []"
    and "value_str j ''nickname'' unknown_user = Inr nick"
    and "value_str j ''avatar'' [] = Inr avt"
    and "\<not> userExists uid (users s)"
    and "ctx s ws = Some uc"
  shows "\<exists>s'. handleNewMessage now1 now2 ws (Parsed j) Text s = Inr s'
     \<and> users s' = AList.update uid \<lparr>user_id = uid, user_nickname = nick, user_avatar = avt\<rparr> (users s)
     \<and> ctx s' = (ctx s)(ws \<mapsto> \<lparr>userId = uid, nickname = nick, avatar = avt, loggedIn = True\<rparr>)"
proof -
  from assms(1) obtain kvs where j: "j = JObj kvs"
    by (blast dest: value_str_obj)
  have c: "uc\<lparr>userId := uid, nickname := nick, avatar := avt, loggedIn := True\<rparr>
      = \<lparr>userId = uid, nickname = nick, avatar = avt, loggedIn = True\<rparr>"
    by simp
  from assms(6) have add: "addUser uid nick avt (users s) =
      ((True, []), AList.update uid \<lparr>user_id = uid, user_nickname = nick, user_avatar = avt\<rparr> (users s))"
    by (simp add: addUser_def userExists_def)
  show ?thesis
    using assms(1-5,7) add unfolding j
    by (simp add: handleNewMessage_def login_branch_def Let_def c
        repo_saveMessage_keeps broadcast_keeps send_keeps write_log_keeps broadcastBotMessage_keeps
        case_prod_beta split: option.split)
qed

text \<open>
  C5 fails on the code. A client connects and logs in as \<^verbatim>\<open>u1\<close>, then sends a second login
  frame with the id \<^verbatim>\<open>u2\<close> on the same connection. The login branch does not look at the
  session's flag: it registers \<^verbatim>\<open>u2\<close> and overwrites the context, and nothing removes
  \<^verbatim>\<open>u1\<close>. The registry then holds \<^verbatim>\<open>u1\<close> although no session has that identity: the
  only context there is, that of connection 0, carries \<^verbatim>\<open>u2\<close>.
\<close>

theorem relogin_leaves_stale_entry:
  "\<exists>s. run initial_world
      [Connect 0,
       Frame 0 (Parsed (JObj [(''type'', JStr ''login''), (''userId'', JStr ''u1''),
                              (''nickname'', JStr ''Alice'')])) Text 1 2,
       Frame 0 (Parsed (JObj [(''type'', JStr ''login''), (''userId'', JStr ''u2''),
                              (''nickname'', JStr ''Alice'')])) Text 3 4] = Inr s
     \<and> userExists ''u1'' (users s)
     \<and> ctx s = (\<lambda>c. None)(0 \<mapsto> \<lparr>userId = ''u2'', nickname = ''Alice'', avatar = [],
                                      loggedIn = True\<rparr>)"
proof -
  let ?l1 = "JObj [(''type'', JStr ''login''), (''userId'', JStr ''u1''), (''nickname'', JStr ''Alice'')]"
  let ?l2 = "JObj [(''type'', JStr ''login''), (''userId'', JStr ''u2''), (''nickname'', JStr ''Alice'')]"
  from first_login_run obtain s1 where
    r1: "run initial_world [Connect 0, Frame 0 (Parsed ?l1) Text 1 2] = Inr s1"
    and u1: "users s1 = [(''u1'', \<lparr>user_id = ''u1'', user_nickname = ''Alice'', user_avatar = []\<rparr>)]"
    and c1: "ctx s1 = (\<lambda>c. None)(0 \<mapsto> \<lparr>userId = ''u1'', nickname = ''Alice'', avatar = [], loggedIn = True\<rparr>)"
    by blast
  have a: "value_str ?l2 ''type'' [] = Inr ''login''" by simp
  have b: "value_str ?l2 ''userId'' [] = Inr ''u2''" by simp
  have n: "value_str ?l2 ''nickname'' unknown_user = Inr ''Alice''" by simp
  have v: "value_str ?l2 ''avatar'' [] = Inr []" by simp
  have ne: "''u2'' \<noteq> []" by simp
  have nx: "\<not> userExists ''u2'' (users s1)" by (simp add: u1 userExists_def)
  have cx: "ctx s1 0 = Some \<lparr>userId = ''u1'', nickname = ''Alice'', avatar = [], loggedIn = True\<rparr>"
    by (simp add: c1)
  from login_accepted [OF a b ne n v nx cx, of 3 4] obtain s2 where
    r2: "handleNewMessage 3 4 0 (Parsed ?l2) Text s1 = Inr s2"
    and u2: "users s2 = AList.update ''u2''
        \<lparr>user_id = ''u2'', user_nickname = ''Alice'', user_avatar = []\<rparr> (users s1)"
    and c2: "ctx s2 = (ctx s1)(0 \<mapsto> \<lparr>userId = ''u2'', nickname = ''Alice'', avatar = [], loggedIn = True\<rparr>)"
    by blast
  have "run initial_world ([Connect 0, Frame 0 (Parsed ?l1) Text 1 2] @ [Frame 0 (Parsed ?l2) Text 3 4])
      = Inr s2"
    by (simp only: run_snoc r1 sum.case step.simps r2)
  moreover have "userExists ''u1'' (users s2)"
    by (simp add: u2 u1 userExists_def)
  moreover have "ctx s2 = (\<lambda>c. None)(0 \<mapsto> \<lparr>userId = ''u2'', nickname = ''Alice'', avatar = [],
                                      loggedIn = True\<rparr>)"
    by (simp add: c2 c1)
  ultimately show ?thesis
    by (intro exI [of _ s2]) simp
qed

subsection \<open>Frames that raise\<close>

text \<open>A frame that does not parse changes nothing but the log.\<close>

lemma unparseable_frame_only_logged:
  "handleNewMessage now1 now2 ws Unparseable Text s = Inr (write_log (HandleFailed ParseError) s)"
  by (simp add: handleNewMessage_def)

lemma msg_content_not_text:
  assumes "ctx s ws = Some uc" and "loggedIn uc"
  shows "handleNewMessage now1 now2 ws
           (Parsed (JObj [(''type'', JStr ''msg''), (''content'', JInt 5)])) Text s
     = Inr (s\<lparr>messages := push_message
                (JObj [(''type'', JStr ''msg''), (''content'', JInt 5),
                       (''userId'', JStr (userId uc)), (''nickname'', JStr (nickname uc)),
                       (''avatar'', JStr (avatar uc)), (''time'', JInt (sint now1)),
                       (''id'', JStr (''msg_'' @ to_string (sint now1)))]) (messages s),
              logged := logged s @ [HandleFailed TypeError]\<rparr>)"
  using assms
  by (simp add: handleNewMessage_def msg_branch_def ebind_def repo_saveMessage_cases
      fill_message_def write_log_def)

text \<open>
  C3 fails on the code. A logged-in client sends the frame
  \<^verbatim>\<open>{"type":"msg","content":5}\<close>. saveMessage appends the stamped record to the history;
  then the log line reads \<^verbatim>\<open>content\<close> as a string, which raises a type error; the handler's
  \<^verbatim>\<open>catch\<close> logs it and the broadcast is never reached. The frame raised a type error and
  the history changed.
\<close>

theorem non_text_content_saved_not_broadcast:
  "\<exists>s1 s2. run initial_world
      [Connect 0,
       Frame 0 (Parsed (JObj [(''type'', JStr ''login''), (''userId'', JStr ''u1''),
                              (''nickname'', JStr ''Alice'')])) Text 1 2] = Inr s1
     \<and> step s1 (Frame 0 (Parsed (JObj [(''type'', JStr ''msg''), (''content'', JInt 5)])) Text 3 4)
         = Inr s2
     \<and> messages s2 = messages s1 @
          [JObj [(''type'', JStr ''msg''), (''content'', JInt 5), (''userId'', JStr ''u1''),
                 (''nickname'', JStr ''Alice''), (''avatar'', JStr []), (''time'', JInt 3),
                 (''id'', JStr ''msg_3'')]]
     \<and> broadcasts s2 = broadcasts s1
     \<and> sent s2 = sent s1
     \<and> logged s2 = logged s1 @ [HandleFailed TypeError]"
proof -
  from first_login_run obtain s1 where
    r1: "run initial_world
      [Connect 0,
       Frame 0 (Parsed (JObj [(''type'', JStr ''login''), (''userId'', JStr ''u1''),
                              (''nickname'', JStr ''Alice'')])) Text 1 2] = Inr s1"
    and c1: "ctx s1 = (\<lambda>c. None)(0 \<mapsto> \<lparr>userId = ''u1'', nickname = ''Alice'', avatar = [], loggedIn = True\<rparr>)"
    and len: "length (messages s1) = 2"
    by blast
  have cx: "ctx s1 0 = Some \<lparr>userId = ''u1'', nickname = ''Alice'', avatar = [], loggedIn = True\<rparr>"
    by (simp add: c1)
  have l: "loggedIn \<lparr>userId = ''u1'', nickname = ''Alice'', avatar = [], loggedIn = True\<rparr>"
    by simp
  from len have push: "\<And>m. push_message m (messages s1) = messages s1 @ [m]"
    by (simp add: push_message_def MAX_HISTORY_def)
  show ?thesis
    using r1 msg_content_not_text [OF cx l, of 3 4]
    by (simp add: push to_string_def digit_char_def)
qed

end
